theory Spec2Isabelle
  imports Main
begin

section \<open>Values\<close>

text \<open>
  A Python float: a finite one is kept as sign, mantissa and binary exponent (so that
  \<open>-0.0\<close> is a value of its own); the others are the two infinities and NaN.
\<close>

datatype pyfloat = FFinite bool nat int | FInf | FNegInf | FNaN

text \<open>
  The value that \<open>response.json()\<close> returns. A number decodes to a Python int of any
  size or to a float; the decoder also accepts \<open>NaN\<close>, \<open>Infinity\<close> and \<open>-Infinity\<close>,
  and returns an infinity for a number beyond the range of a float, so every float is a
  possible value. An object is a dictionary: its keys are distinct and keep the order of
  the document.
\<close>

datatype json =
    JNull
  | JBool bool
  | JInt int
  | JFloat pyfloat
  | JStr string
  | JArr "json list"
  | JObj "(string \<times> json) list"

text \<open>The Python values that occur as query parameters of a request.\<close>

datatype pyval = PyNone | PyBool bool | PyInt int | PyStr string

text \<open>
  An argument of a call whose parameter has a default: the caller either leaves it out
  or gives a value.
\<close>

datatype 'a arg = Omitted | Given 'a

fun arg_or :: "'a arg \<Rightarrow> 'a \<Rightarrow> 'a" where
  "arg_or Omitted d = d"
| "arg_or (Given v) d = v"

section \<open>String formatting\<close>

text \<open>\<open>str(n)\<close> for a Python int, as the f-strings of the tools interpolate it.\<close>

definition digit_char :: "nat \<Rightarrow> char" where
  "digit_char d = ''0123456789'' ! d"

function str_nat :: "nat \<Rightarrow> string" where
  "str_nat n = (if n < 10 then [digit_char n] else str_nat (n div 10) @ [digit_char (n mod 10)])"
  by pat_completeness auto
termination
  by (relation "measure id") auto

definition str_int :: "int \<Rightarrow> string" where
  "str_int i = (if i < 0 then CHR ''-'' # str_nat (nat (- i)) else str_nat (nat i))"

text \<open>\<open>sep.join(xs)\<close>.\<close>

fun join :: "string \<Rightarrow> string list \<Rightarrow> string" where
  "join sep [] = []"
| "join sep [x] = x"
| "join sep (x # y # ys) = x @ sep @ join sep (y # ys)"

section \<open>The HTTP client and the process environment\<close>

text \<open>
  What a tool hands to \<open>client.get\<close>: the URL string, the \<open>headers\<close> dictionary and the
  \<open>params\<close> dictionary (both empty when the call does not pass them).
\<close>

record request =
  url :: string
  headers :: "(string \<times> string) list"
  params :: "(string \<times> pyval) list"

text \<open>
  The body of a response, by what \<open>response.json()\<close> does on it: either the decoder
  accepts the text and returns a value (\<open>Decoded\<close>, the text standing for that value),
  or the decoder rejects the text and raises (\<open>Undecodable\<close>). What the decoder accepts
  is the decoder's business: it is wider than the JSON grammar.
\<close>

datatype body = Decoded json | Undecodable string

record response =
  status_code :: nat
  content :: body

text \<open>
  The exceptions that can leave a tool: the client's status exception, whatever
  exception \<open>response.json()\<close> raises on a body it rejects (with the rejected text), and
  the client's transport exceptions (no response was received).
\<close>

datatype error = HTTPStatusError nat | DecodeError string | TransportError string

text \<open>
  The upstream service: what the \<open>n\<close>-th outbound request of the process is answered
  with. It may answer the same request differently at different times.
\<close>

type_synonym upstream = "nat \<Rightarrow> request \<Rightarrow> error + response"

text \<open>
  The state of the process: \<open>os.environ\<close>, the number of \<open>AsyncClient\<close> objects that
  are open, and the log of the requests sent so far.
\<close>

record world =
  environ :: "string \<rightharpoonup> string"
  open_clients :: nat
  sent :: "request list"

text \<open>\<open>os.getenv(key, default)\<close>.\<close>

definition getenv :: "world \<Rightarrow> string \<Rightarrow> string \<Rightarrow> string" where
  "getenv w key dflt = (case environ w key of None \<Rightarrow> dflt | Some v \<Rightarrow> v)"

text \<open>\<open>d[k] = v\<close> on a dictionary that keeps insertion order.\<close>

fun dict_set :: "('k \<times> 'v) list \<Rightarrow> 'k \<Rightarrow> 'v \<Rightarrow> ('k \<times> 'v) list" where
  "dict_set [] k v = [(k, v)]"
| "dict_set ((k', v') # d) k v = (if k' = k then (k, v) # d else (k', v') # dict_set d k v)"

text \<open>
  \<open>async with httpx.AsyncClient() as client: ...\<close>: the client is opened, the block
  runs, and the client is closed whether the block returns or raises.
\<close>

definition async_client :: "(world \<Rightarrow> (error + 'a) \<times> world) \<Rightarrow> world \<Rightarrow> (error + 'a) \<times> world" where
  "async_client block w =
     (case block (w\<lparr>open_clients := Suc (open_clients w)\<rparr>) of
        (res, w') \<Rightarrow> (res, w'\<lparr>open_clients := open_clients w' - 1\<rparr>))"

text \<open>
  \<open>await client.get(url, headers=..., params=...)\<close>: one request goes out (the client
  follows no redirect and retries nothing by default) and the answer comes back.
\<close>

definition client_get ::
  "upstream \<Rightarrow> string \<Rightarrow> (string \<times> string) list \<Rightarrow> (string \<times> pyval) list \<Rightarrow> world
     \<Rightarrow> (error + response) \<times> world" where
  "client_get up u hs ps w =
     (let q = \<lparr>url = u, headers = hs, params = ps\<rparr>
      in (up (length (sent w)) q, w\<lparr>sent := sent w @ [q]\<rparr>))"

text \<open>\<open>response.is_success\<close> and \<open>response.raise_for_status()\<close>.\<close>

definition is_success :: "response \<Rightarrow> bool" where
  "is_success r = (200 \<le> status_code r \<and> status_code r \<le> 299)"

definition raise_for_status :: "response \<Rightarrow> error + response" where
  "raise_for_status r = (if is_success r then Inr r else Inl (HTTPStatusError (status_code r)))"

text \<open>\<open>response.json()\<close>.\<close>

definition response_json :: "response \<Rightarrow> error + json" where
  "response_json r =
     (case content r of Decoded j \<Rightarrow> Inr j | Undecodable t \<Rightarrow> Inl (DecodeError t))"

section \<open>The request model of the quote tool\<close>

record JupiterQuoteRequest =
  inputMint :: string
  outputMint :: string
  amount :: string
  slippageBps :: int
  platformFeeBps :: "int option"
  onlyDirectRoutes :: "bool option"
  asLegacyTransaction :: "bool option"

text \<open>Constructing the model: a field that the caller leaves out takes its default.\<close>

definition JupiterQuoteRequest_init ::
  "string \<Rightarrow> string \<Rightarrow> string \<Rightarrow> int arg \<Rightarrow> int option arg \<Rightarrow> bool option arg \<Rightarrow> bool option arg
     \<Rightarrow> JupiterQuoteRequest" where
  "JupiterQuoteRequest_init im om am sl pf od lt =
     \<lparr>inputMint = im, outputMint = om, amount = am,
      slippageBps = arg_or sl 50,
      platformFeeBps = arg_or pf None,
      onlyDirectRoutes = arg_or od (Some False),
      asLegacyTransaction = arg_or lt (Some False)\<rparr>"

fun py_opt :: "('a \<Rightarrow> pyval) \<Rightarrow> 'a option \<Rightarrow> pyval" where
  "py_opt f None = PyNone"
| "py_opt f (Some v) = f v"

text \<open>\<open>model_dump()\<close>: every field of the model, in declaration order.\<close>

definition model_dump :: "JupiterQuoteRequest \<Rightarrow> (string \<times> pyval) list" where
  "model_dump q =
     [(''inputMint'', PyStr (inputMint q)),
      (''outputMint'', PyStr (outputMint q)),
      (''amount'', PyStr (amount q)),
      (''slippageBps'', PyInt (slippageBps q)),
      (''platformFeeBps'', py_opt PyInt (platformFeeBps q)),
      (''onlyDirectRoutes'', py_opt PyBool (onlyDirectRoutes q)),
      (''asLegacyTransaction'', py_opt PyBool (asLegacyTransaction q))]"

section \<open>The tools\<close>

type_synonym tool_result = "(error + json) \<times> world"

text \<open>
  Every tool ends with the same three statements: await the response, raise for its
  status, return its decoded body. An exception ends the block at the statement that
  raises it.
\<close>

definition solscan_account_info :: "upstream \<Rightarrow> string \<Rightarrow> world \<Rightarrow> tool_result" where
  "solscan_account_info up address w =
     (let api_key = getenv w ''SOLSCAN_API_KEY'' '''';
          headers0 = [(''accept'', ''application/json'')];
          headers1 = (if api_key \<noteq> '''' then dict_set headers0 ''token'' api_key else headers0)
      in async_client (\<lambda>w1.
           case client_get up (''https://public-api.solscan.io/account/'' @ address) headers1 [] w1 of
             (Inl e, w2) \<Rightarrow> (Inl e, w2)
           | (Inr response, w2) \<Rightarrow>
               (case raise_for_status response of
                  Inl e \<Rightarrow> (Inl e, w2)
                | Inr _ \<Rightarrow> (response_json response, w2))) w)"

definition solscan_token_info :: "upstream \<Rightarrow> string \<Rightarrow> world \<Rightarrow> tool_result" where
  "solscan_token_info up address w =
     (let api_key = getenv w ''SOLSCAN_API_KEY'' '''';
          headers0 = [(''accept'', ''application/json'')];
          headers1 = (if api_key \<noteq> '''' then dict_set headers0 ''token'' api_key else headers0)
      in async_client (\<lambda>w1.
           case client_get up (''https://public-api.solscan.io/token/meta?tokenAddress='' @ address)
                  headers1 [] w1 of
             (Inl e, w2) \<Rightarrow> (Inl e, w2)
           | (Inr response, w2) \<Rightarrow>
               (case raise_for_status response of
                  Inl e \<Rightarrow> (Inl e, w2)
                | Inr _ \<Rightarrow> (response_json response, w2))) w)"

definition solscan_token_holders ::
  "upstream \<Rightarrow> string \<Rightarrow> int arg \<Rightarrow> int arg \<Rightarrow> world \<Rightarrow> tool_result" where
  "solscan_token_holders up address limit_arg offset_arg w =
     (let limit = arg_or limit_arg 10;
          offset = arg_or offset_arg 0;
          api_key = getenv w ''SOLSCAN_API_KEY'' '''';
          headers0 = [(''accept'', ''application/json'')];
          headers1 = (if api_key \<noteq> '''' then dict_set headers0 ''token'' api_key else headers0)
      in async_client (\<lambda>w1.
           case client_get up
                  (''https://public-api.solscan.io/token/holders?tokenAddress='' @ address
                     @ ''&limit='' @ str_int limit @ ''&offset='' @ str_int offset)
                  headers1 [] w1 of
             (Inl e, w2) \<Rightarrow> (Inl e, w2)
           | (Inr response, w2) \<Rightarrow>
               (case raise_for_status response of
                  Inl e \<Rightarrow> (Inl e, w2)
                | Inr _ \<Rightarrow> (response_json response, w2))) w)"

definition solscan_transaction :: "upstream \<Rightarrow> string \<Rightarrow> world \<Rightarrow> tool_result" where
  "solscan_transaction up signature w =
     (let api_key = getenv w ''SOLSCAN_API_KEY'' '''';
          headers0 = [(''accept'', ''application/json'')];
          headers1 = (if api_key \<noteq> '''' then dict_set headers0 ''token'' api_key else headers0)
      in async_client (\<lambda>w1.
           case client_get up (''https://public-api.solscan.io/transaction/'' @ signature)
                  headers1 [] w1 of
             (Inl e, w2) \<Rightarrow> (Inl e, w2)
           | (Inr response, w2) \<Rightarrow>
               (case raise_for_status response of
                  Inl e \<Rightarrow> (Inl e, w2)
                | Inr _ \<Rightarrow> (response_json response, w2))) w)"

definition jupiter_tokens :: "upstream \<Rightarrow> world \<Rightarrow> tool_result" where
  "jupiter_tokens up w =
     async_client (\<lambda>w1.
       case client_get up ''https://token.jup.ag/all'' [] [] w1 of
         (Inl e, w2) \<Rightarrow> (Inl e, w2)
       | (Inr response, w2) \<Rightarrow>
           (case raise_for_status response of
              Inl e \<Rightarrow> (Inl e, w2)
            | Inr _ \<Rightarrow> (response_json response, w2))) w"

definition jupiter_price :: "upstream \<Rightarrow> string list \<Rightarrow> string arg \<Rightarrow> world \<Rightarrow> tool_result" where
  "jupiter_price up ids vsToken_arg w =
     (let vsToken = arg_or vsToken_arg ''USDC''
      in async_client (\<lambda>w1.
           case client_get up
                  (''https://price.jup.ag/v4/price?ids='' @ join '','' ids @ ''&vsToken='' @ vsToken)
                  [] [] w1 of
             (Inl e, w2) \<Rightarrow> (Inl e, w2)
           | (Inr response, w2) \<Rightarrow>
               (case raise_for_status response of
                  Inl e \<Rightarrow> (Inl e, w2)
                | Inr _ \<Rightarrow> (response_json response, w2))) w)"

definition jupiter_quote :: "upstream \<Rightarrow> JupiterQuoteRequest \<Rightarrow> world \<Rightarrow> tool_result" where
  "jupiter_quote up quote_request w =
     async_client (\<lambda>w1.
       case client_get up ''https://quote-api.jup.ag/v6/quote'' [] (model_dump quote_request) w1 of
         (Inl e, w2) \<Rightarrow> (Inl e, w2)
       | (Inr response, w2) \<Rightarrow>
           (case raise_for_status response of
              Inl e \<Rightarrow> (Inl e, w2)
            | Inr _ \<Rightarrow> (response_json response, w2))) w"

definition dexscreener_token :: "upstream \<Rightarrow> string \<Rightarrow> world \<Rightarrow> tool_result" where
  "dexscreener_token up tokenAddress w =
     async_client (\<lambda>w1.
       case client_get up (''https://api.dexscreener.com/latest/dex/tokens/'' @ tokenAddress)
              [] [] w1 of
         (Inl e, w2) \<Rightarrow> (Inl e, w2)
       | (Inr response, w2) \<Rightarrow>
           (case raise_for_status response of
              Inl e \<Rightarrow> (Inl e, w2)
            | Inr _ \<Rightarrow> (response_json response, w2))) w"

definition dexscreener_pair :: "upstream \<Rightarrow> string \<Rightarrow> world \<Rightarrow> tool_result" where
  "dexscreener_pair up pairAddress w =
     async_client (\<lambda>w1.
       case client_get up (''https://api.dexscreener.com/latest/dex/pairs/solana/'' @ pairAddress)
              [] [] w1 of
         (Inl e, w2) \<Rightarrow> (Inl e, w2)
       | (Inr response, w2) \<Rightarrow>
           (case raise_for_status response of
              Inl e \<Rightarrow> (Inl e, w2)
            | Inr _ \<Rightarrow> (response_json response, w2))) w"

definition dexscreener_search :: "upstream \<Rightarrow> string \<Rightarrow> world \<Rightarrow> tool_result" where
  "dexscreener_search up query w =
     async_client (\<lambda>w1.
       case client_get up (''https://api.dexscreener.com/latest/dex/search?q='' @ query)
              [] [] w1 of
         (Inl e, w2) \<Rightarrow> (Inl e, w2)
       | (Inr response, w2) \<Rightarrow>
           (case raise_for_status response of
              Inl e \<Rightarrow> (Inl e, w2)
            | Inr _ \<Rightarrow> (response_json response, w2))) w"

text \<open>
  The registry of the server: a call names one of the ten registered tools and carries
  its arguments.
\<close>

datatype tool_call =
    Solscan_account_info string
  | Solscan_token_info string
  | Solscan_token_holders string "int arg" "int arg"
  | Solscan_transaction string
  | Jupiter_tokens
  | Jupiter_price "string list" "string arg"
  | Jupiter_quote JupiterQuoteRequest
  | Dexscreener_token string
  | Dexscreener_pair string
  | Dexscreener_search string

fun call_tool :: "upstream \<Rightarrow> tool_call \<Rightarrow> world \<Rightarrow> tool_result" where
  "call_tool up (Solscan_account_info a) w = solscan_account_info up a w"
| "call_tool up (Solscan_token_info a) w = solscan_token_info up a w"
| "call_tool up (Solscan_token_holders a l off) w = solscan_token_holders up a l off w"
| "call_tool up (Solscan_transaction s) w = solscan_transaction up s w"
| "call_tool up Jupiter_tokens w = jupiter_tokens up w"
| "call_tool up (Jupiter_price ids v) w = jupiter_price up ids v w"
| "call_tool up (Jupiter_quote q) w = jupiter_quote up q w"
| "call_tool up (Dexscreener_token a) w = dexscreener_token up a w"
| "call_tool up (Dexscreener_pair a) w = dexscreener_pair up a w"
| "call_tool up (Dexscreener_search q) w = dexscreener_search up q w"

text \<open>The requests a call sends: what it appends to the log.\<close>

definition issued :: "upstream \<Rightarrow> tool_call \<Rightarrow> world \<Rightarrow> request list" where
  "issued up c w = drop (length (sent w)) (sent (snd (call_tool up c w)))"

text \<open>A mocked transport that answers every request with the same response.\<close>

definition mock_transport :: "response \<Rightarrow> upstream" where
  "mock_transport r n q = Inr r"

definition world0 :: world where
  "world0 = \<lparr>environ = Map.empty, open_clients = 0, sent = []\<rparr>"

text \<open>The \<open>name\<close> under which the decorator registers each tool.\<close>

fun tool_name :: "tool_call \<Rightarrow> string" where
  "tool_name (Solscan_account_info _) = ''solscan_account_info''"
| "tool_name (Solscan_token_info _) = ''solscan_token_info''"
| "tool_name (Solscan_token_holders _ _ _) = ''solscan_token_holders''"
| "tool_name (Solscan_transaction _) = ''solscan_transaction''"
| "tool_name Jupiter_tokens = ''jupiter_tokens''"
| "tool_name (Jupiter_price _ _) = ''jupiter_price''"
| "tool_name (Jupiter_quote _) = ''jupiter_quote''"
| "tool_name (Dexscreener_token _) = ''dexscreener_token''"
| "tool_name (Dexscreener_pair _) = ''dexscreener_pair''"
| "tool_name (Dexscreener_search _) = ''dexscreener_search''"

definition solscan_tools :: "string list" where
  "solscan_tools =
     [''solscan_account_info'', ''solscan_token_info'', ''solscan_token_holders'',
      ''solscan_transaction'']"

definition jupiter_dexscreener_tools :: "string list" where
  "jupiter_dexscreener_tools =
     [''jupiter_tokens'', ''jupiter_price'', ''jupiter_quote'',
      ''dexscreener_token'', ''dexscreener_pair'', ''dexscreener_search'']"

section \<open>The declared response models\<close>

text \<open>
  A field annotation of a model class, and the shape it declares for a decoded value: a
  required field (declared with \<open>Field(...)\<close>) must be present, a field with default
  \<open>None\<close> may be absent, and a present field must have the declared type. This is the
  declaration read strictly: a value of the declared shape passes validation against the
  model, and validation accepts some further values by coercing them (a numeric string
  for a number, for instance). So a value that validation rejects does not have the
  declared shape.
\<close>

datatype annotation =
    TStr
  | TInt
  | TFloat
  | TBool
  | TAny
  | TOptional annotation
  | TList annotation
  | TDict
  | TEnum "string list"
  | TModel "(string \<times> bool \<times> annotation) list"

fun lookup :: "(string \<times> 'v) list \<Rightarrow> string \<Rightarrow> 'v option" where
  "lookup [] k = None"
| "lookup ((k', v) # d) k = (if k' = k then Some v else lookup d k)"

fun matches :: "annotation \<Rightarrow> json \<Rightarrow> bool"
and matches_fields :: "(string \<times> bool \<times> annotation) list \<Rightarrow> (string \<times> json) list \<Rightarrow> bool" where
  "matches TStr j = (case j of JStr _ \<Rightarrow> True | _ \<Rightarrow> False)"
| "matches TInt j = (case j of JInt _ \<Rightarrow> True | _ \<Rightarrow> False)"
| "matches TFloat j = (case j of JInt _ \<Rightarrow> True | JFloat _ \<Rightarrow> True | _ \<Rightarrow> False)"
| "matches TBool j = (case j of JBool _ \<Rightarrow> True | _ \<Rightarrow> False)"
| "matches TAny j = True"
| "matches (TOptional a) j = (case j of JNull \<Rightarrow> True | _ \<Rightarrow> matches a j)"
| "matches (TList a) j = (case j of JArr xs \<Rightarrow> list_all (matches a) xs | _ \<Rightarrow> False)"
| "matches TDict j = (case j of JObj _ \<Rightarrow> True | _ \<Rightarrow> False)"
| "matches (TEnum vs) j = (case j of JStr s \<Rightarrow> List.member vs s | _ \<Rightarrow> False)"
| "matches (TModel fs) j = (case j of JObj kvs \<Rightarrow> matches_fields fs kvs | _ \<Rightarrow> False)"
| "matches_fields [] kvs = True"
| "matches_fields ((k, required, a) # fs) kvs =
     ((case lookup kvs k of None \<Rightarrow> \<not> required | Some v \<Rightarrow> matches a v)
      \<and> matches_fields fs kvs)"

definition TokenMetadata :: annotation where
  "TokenMetadata = TModel
     [(''symbol'', True, TStr),
      (''name'', True, TStr),
      (''decimals'', True, TInt),
      (''logo'', False, TOptional TStr),
      (''coingecko_id'', False, TOptional TStr)]"

definition Price :: annotation where
  "Price = TModel
     [(''usd'', True, TFloat),
      (''usd_24h_change'', False, TOptional TFloat),
      (''sol'', False, TOptional TFloat)]"

definition SolscanAccountType :: annotation where
  "SolscanAccountType = TEnum [''token'', ''account'', ''nft'', ''program'']"

definition SolscanAccountInfo :: annotation where
  "SolscanAccountInfo = TModel
     [(''address'', True, TStr),
      (''type'', True, SolscanAccountType),
      (''owner'', False, TOptional TStr),
      (''executable'', True, TBool),
      (''lamports'', True, TInt),
      (''rent_epoch'', True, TInt),
      (''data'', False, TOptional TAny)]"

definition SolscanTransactionInfo :: annotation where
  "SolscanTransactionInfo = TModel
     [(''signature'', True, TStr),
      (''block'', True, TInt),
      (''slot'', True, TInt),
      (''fee'', True, TInt),
      (''status'', True, TStr),
      (''timestamp'', True, TInt),
      (''signer'', True, TList TStr),
      (''log_messages'', False, TOptional (TList TStr))]"

definition SolscanTokenHolderInfo :: annotation where
  "SolscanTokenHolderInfo = TModel
     [(''address'', True, TStr),
      (''owner'', False, TOptional TStr),
      (''amount'', True, TFloat),
      (''percent'', True, TFloat),
      (''rank'', True, TInt)]"

definition SolscanTokenInfo :: annotation where
  "SolscanTokenInfo = TModel
     [(''address'', True, TStr),
      (''symbol'', True, TStr),
      (''name'', True, TStr),
      (''icon'', False, TOptional TStr),
      (''decimals'', True, TInt),
      (''supply'', True, TFloat),
      (''holder_count'', False, TOptional TInt),
      (''price'', False, TOptional Price)]"

definition JupiterToken :: annotation where
  "JupiterToken = TModel
     [(''address'', True, TStr),
      (''chainId'', True, TInt),
      (''decimals'', True, TInt),
      (''name'', True, TStr),
      (''symbol'', True, TStr),
      (''logoURI'', False, TOptional TStr),
      (''tags'', False, TOptional (TList TStr)),
      (''verified'', False, TOptional TBool)]"

definition JupiterRoute :: annotation where
  "JupiterRoute = TModel
     [(''inAmount'', True, TStr),
      (''outAmount'', True, TStr),
      (''amount'', True, TStr),
      (''otherAmountThreshold'', True, TStr),
      (''swapMode'', True, TStr),
      (''slippageBps'', True, TInt),
      (''priceImpactPct'', True, TStr),
      (''marketInfos'', True, TList TDict)]"

definition JupiterQuoteResponse :: annotation where
  "JupiterQuoteResponse = TModel
     [(''inputMint'', True, TStr),
      (''outputMint'', True, TStr),
      (''inAmount'', True, TStr),
      (''outAmount'', True, TStr),
      (''otherAmountThreshold'', True, TStr),
      (''swapMode'', True, TStr),
      (''slippageBps'', True, TInt),
      (''priceImpactPct'', True, TStr),
      (''routes'', True, TList JupiterRoute)]"

definition DexScreenerPair :: annotation where
  "DexScreenerPair = TModel
     [(''chainId'', True, TStr),
      (''dexId'', True, TStr),
      (''url'', True, TStr),
      (''pairAddress'', True, TStr),
      (''baseToken'', True, TokenMetadata),
      (''quoteToken'', True, TokenMetadata),
      (''priceNative'', True, TStr),
      (''priceUsd'', False, TOptional TStr),
      (''txns'', True, TDict),
      (''volume'', True, TDict),
      (''liquidity'', True, TDict)]"

definition DexScreenerSearchResponse :: annotation where
  "DexScreenerSearchResponse = TModel [(''pairs'', True, TList DexScreenerPair)]"

definition response_models :: "annotation list" where
  "response_models =
     [TokenMetadata, Price, SolscanAccountInfo, SolscanTransactionInfo, SolscanTokenHolderInfo,
      SolscanTokenInfo, JupiterToken, JupiterRoute, JupiterQuoteResponse, DexScreenerPair,
      DexScreenerSearchResponse]"

section \<open>What one call does\<close>

lemma block_result:
  "fst (async_client (\<lambda>w1.
       case client_get up u hs ps w1 of
         (Inl e, w2) \<Rightarrow> (Inl e, w2)
       | (Inr response, w2) \<Rightarrow>
           (case raise_for_status response of
              Inl e \<Rightarrow> (Inl e, w2)
            | Inr _ \<Rightarrow> (response_json response, w2))) w)
   = (case up (length (sent w)) \<lparr>url = u, headers = hs, params = ps\<rparr> of
        Inl e \<Rightarrow> Inl e
      | Inr r \<Rightarrow> if is_success r then response_json r else Inl (HTTPStatusError (status_code r)))"
  by (simp add: async_client_def client_get_def raise_for_status_def Let_def
      split: sum.splits prod.splits)

lemma block_world:
  "snd (async_client (\<lambda>w1.
       case client_get up u hs ps w1 of
         (Inl e, w2) \<Rightarrow> (Inl e, w2)
       | (Inr response, w2) \<Rightarrow>
           (case raise_for_status response of
              Inl e \<Rightarrow> (Inl e, w2)
            | Inr _ \<Rightarrow> (response_json response, w2))) w)
   = w\<lparr>sent := sent w @ [\<lparr>url = u, headers = hs, params = ps\<rparr>]\<rparr>"
  by (simp add: async_client_def client_get_def raise_for_status_def Let_def
      split: sum.splits prod.splits)

lemmas tool_defs = solscan_account_info_def solscan_token_info_def solscan_token_holders_def
  solscan_transaction_def jupiter_tokens_def jupiter_price_def jupiter_quote_def
  dexscreener_token_def dexscreener_pair_def dexscreener_search_def

lemma call_world: "snd (call_tool up c w) = w\<lparr>sent := sent w @ issued up' c w\<rparr>"
  by (cases c) (simp_all add: issued_def tool_defs block_world Let_def)

lemma issued_length: "length (issued up c w) = 1"
  by (cases c) (simp_all add: issued_def tool_defs block_world Let_def)

lemma issued_upstream: "issued up c w = issued up' c w"
  by (cases c) (simp_all add: issued_def tool_defs block_world Let_def)

lemma issued_sent: "issued up c (w\<lparr>sent := l\<rparr>) = issued up c w"
  by (cases c) (simp_all add: issued_def tool_defs block_world Let_def getenv_def)

lemma call_result:
  "fst (call_tool up c w) =
     (case up (length (sent w)) (hd (issued up' c w)) of
        Inl e \<Rightarrow> Inl e
      | Inr r \<Rightarrow> if is_success r then response_json r else Inl (HTTPStatusError (status_code r)))"
  by (cases c) (simp_all add: issued_def tool_defs block_world block_result Let_def)

section \<open>Passing the response through\<close>

text \<open>
  Claim C1. For every tool and every input: when the upstream answers the request of the
  call with a response whose status is a 2xx success code and whose body decodes to
  \<open>j\<close>, the tool has sent exactly one request and returns exactly \<open>j\<close>: nothing is
  added, removed, renamed or transformed on the way.
\<close>

theorem passthrough_on_success:
  assumes "up (length (sent w)) (hd (issued up c w)) = Inr r"
    and "is_success r"
    and "content r = Decoded j"
  shows "length (issued up c w) = 1 \<and> fst (call_tool up c w) = Inr j"
proof -
  have "fst (call_tool up c w) = response_json r"
    using assms(1,2) by (simp add: call_result [where up' = up])
  then have "fst (call_tool up c w) = Inr j"
    using assms(3) by (simp add: response_json_def)
  then show ?thesis
    by (simp add: issued_length)
qed

theorem passthrough_on_success_witness:
  "issued
      (mock_transport
         \<lparr>status_code = 200, content = Decoded (JObj [(''price'', JFloat FNaN)])\<rparr>)
      (Dexscreener_search ''bonk'') world0
     = [\<lparr>url = ''https://api.dexscreener.com/latest/dex/search?q=bonk'',
         headers = [], params = []\<rparr>]
   \<and> is_success \<lparr>status_code = 200, content = Decoded (JObj [(''price'', JFloat FNaN)])\<rparr>
   \<and> fst (call_tool
          (mock_transport
             \<lparr>status_code = 200, content = Decoded (JObj [(''price'', JFloat FNaN)])\<rparr>)
          (Dexscreener_search ''bonk'') world0)
     = Inr (JObj [(''price'', JFloat FNaN)])"
proof -
  let ?j = "JObj [(''price'', JFloat FNaN)]"
  let ?r = "\<lparr>status_code = 200, content = Decoded ?j\<rparr>"
  let ?q = "\<lparr>url = ''https://api.dexscreener.com/latest/dex/search?q=bonk'',
         headers = [], params = []\<rparr>"
  have a: "issued (mock_transport ?r) (Dexscreener_search ''bonk'') world0 = [?q]"
    by (simp add: issued_def dexscreener_search_def block_world world0_def)
  have b: "mock_transport ?r (length (sent world0))
             (hd (issued (mock_transport ?r) (Dexscreener_search ''bonk'') world0)) = Inr ?r"
    by (simp add: mock_transport_def)
  have c: "is_success ?r"
    by (simp add: is_success_def)
  have d: "content ?r = Decoded ?j"
    by simp
  show ?thesis
    using a c
      passthrough_on_success
        [where up = "mock_transport ?r" and w = world0 and c = "Dexscreener_search ''bonk''",
         OF b c d]
    by simp
qed

section \<open>Errors\<close>

text \<open>
  Claim C2, as stated, fails: on a response with status 200 whose body the decoder
  rejects, \<open>response.json()\<close> raises, so an error leaves the tool although the status is
  a success code.
\<close>

theorem success_decode_error_counterexample:
  "is_success \<lparr>status_code = 200, content = Undecodable ''<html>''\<rparr>
   \<and> fst (call_tool (mock_transport \<lparr>status_code = 200, content = Undecodable ''<html>''\<rparr>)
          (Solscan_account_info ''abc'') world0)
     = Inl (DecodeError ''<html>'')"
  by (simp add: is_success_def solscan_account_info_def block_result mock_transport_def
      response_json_def Let_def getenv_def world0_def)

text \<open>
  Claim C2, amended. For every tool and every input whose request is answered with a
  response: the tool raises the client's status exception if and only if the status is
  not a 2xx success code; on a 2xx response the outcome is that of \<open>response.json()\<close> on
  the body (the value it returns, and no error, when it accepts the body; its own error,
  not wrapped, when it rejects the body); and in either case the call has sent exactly
  one request.
\<close>

theorem status_error_iff:
  assumes "up (length (sent w)) (hd (issued up c w)) = Inr r"
  shows "((fst (call_tool up c w) = Inl (HTTPStatusError (status_code r))) = (\<not> is_success r))
    \<and> (if is_success r
        then fst (call_tool up c w)
               = (case content r of Decoded j \<Rightarrow> Inr j | Undecodable t \<Rightarrow> Inl (DecodeError t))
        else fst (call_tool up c w) = Inl (HTTPStatusError (status_code r)))
    \<and> length (issued up c w) = 1
    \<and> sent (snd (call_tool up c w)) = sent w @ issued up c w"
proof -
  have res: "fst (call_tool up c w)
      = (if is_success r then response_json r else Inl (HTTPStatusError (status_code r)))"
    using assms by (simp add: call_result [where up' = up])
  have log: "sent (snd (call_tool up c w)) = sent w @ issued up c w"
    by (simp add: call_world [where up' = up])
  show ?thesis
    using res log by (simp add: issued_length response_json_def split: body.splits)
qed

theorem status_error_iff_witness:
  "\<not> is_success \<lparr>status_code = 404, content = Decoded JNull\<rparr>
   \<and> fst (call_tool (mock_transport \<lparr>status_code = 404, content = Decoded JNull\<rparr>)
          Jupiter_tokens world0)
     = Inl (HTTPStatusError 404)
   \<and> sent (snd (call_tool (mock_transport \<lparr>status_code = 404, content = Decoded JNull\<rparr>)
          Jupiter_tokens world0))
     = [\<lparr>url = ''https://token.jup.ag/all'', headers = [], params = []\<rparr>]
   \<and> is_success \<lparr>status_code = 200, content = Decoded (JFloat FInf)\<rparr>
   \<and> fst (call_tool (mock_transport \<lparr>status_code = 200, content = Decoded (JFloat FInf)\<rparr>)
          Jupiter_tokens world0)
     = Inr (JFloat FInf)"
proof -
  let ?r = "\<lparr>status_code = 404, content = Decoded JNull\<rparr>"
  let ?s = "\<lparr>status_code = 200, content = Decoded (JFloat FInf)\<rparr>"
  let ?q = "\<lparr>url = ''https://token.jup.ag/all'', headers = [], params = []\<rparr>"
  have a: "issued up Jupiter_tokens world0 = [?q]" for up
    by (simp add: issued_def jupiter_tokens_def block_world world0_def)
  have b: "mock_transport ?r (length (sent world0))
             (hd (issued (mock_transport ?r) Jupiter_tokens world0)) = Inr ?r"
    by (simp add: mock_transport_def)
  have b': "mock_transport ?s (length (sent world0))
             (hd (issued (mock_transport ?s) Jupiter_tokens world0)) = Inr ?s"
    by (simp add: mock_transport_def)
  have c: "\<not> is_success ?r" and c': "is_success ?s"
    by (simp_all add: is_success_def)
  have d: "sent world0 = []"
    by (simp add: world0_def)
  show ?thesis
    using a c c' d
      status_error_iff [where up = "mock_transport ?r" and w = world0 and c = Jupiter_tokens, OF b]
      status_error_iff [where up = "mock_transport ?s" and w = world0 and c = Jupiter_tokens, OF b']
    by simp
qed

section \<open>One request per call\<close>

lemma call_environ: "environ (snd (call_tool up c w)) = environ w"
  by (simp add: call_world [where up' = up])

lemma call_open_clients: "open_clients (snd (call_tool up c w)) = open_clients w"
  by (simp add: call_world [where up' = up])

lemma call_sent: "sent (snd (call_tool up c w)) = sent w @ issued up c w"
  by (simp add: call_world [where up' = up])

lemma issued_after_call: "issued up' b (snd (call_tool up a w)) = issued up' b w"
  by (simp add: call_world [where up' = up] issued_sent)

text \<open>
  Claim C3. Every invocation of every tool sends exactly one request, whatever the
  upstream answers (a transport error, a failing status or a success): the log grows by
  one entry. Nothing is cached: calling the same tool again with the same arguments sends
  the same request a second time, and the second result is what the upstream answers to
  that second request.
\<close>

theorem one_request_per_call:
  "length (issued up c w) = 1
   \<and> sent (snd (call_tool up c w)) = sent w @ issued up c w
   \<and> issued up c (snd (call_tool up c w)) = issued up c w
   \<and> sent (snd (call_tool up c (snd (call_tool up c w)))) = sent w @ issued up c w @ issued up c w
   \<and> fst (call_tool up c (snd (call_tool up c w))) = fst (call_tool (\<lambda>n. up (Suc n)) c w)"
proof -
  have "fst (call_tool up c (snd (call_tool up c w))) = fst (call_tool (\<lambda>n. up (Suc n)) c w)"
    by (simp add: call_result [where up' = up] call_sent issued_after_call issued_length)
  then show ?thesis
    by (simp add: issued_length call_sent issued_after_call)
qed

section \<open>Request headers\<close>

text \<open>
  Claim C4. The headers a Solscan tool sends are \<open>accept: application/json\<close> and,
  exactly when \<open>SOLSCAN_API_KEY\<close> is set to a non-empty string, a \<open>token\<close> header
  with that value; there is no other header.
\<close>

theorem solscan_request_headers:
  assumes "tool_name c \<in> set solscan_tools"
  shows "map headers (issued up c w) =
     [case environ w ''SOLSCAN_API_KEY'' of
        None \<Rightarrow> [(''accept'', ''application/json'')]
      | Some k \<Rightarrow>
          if k = '''' then [(''accept'', ''application/json'')]
          else [(''accept'', ''application/json''), (''token'', k)]]"
  using assms
  by (cases c)
     (simp_all add: solscan_tools_def issued_def tool_defs block_world Let_def getenv_def
        split: option.splits)

theorem solscan_request_headers_witness:
  "tool_name (Solscan_token_holders ''mint'' Omitted Omitted) \<in> set solscan_tools
   \<and> map headers (issued (mock_transport \<lparr>status_code = 200, content = Decoded JNull\<rparr>)
        (Solscan_token_holders ''mint'' Omitted Omitted)
        (world0\<lparr>environ := [''SOLSCAN_API_KEY'' \<mapsto> ''secret'']\<rparr>))
     = [[(''accept'', ''application/json''), (''token'', ''secret'')]]"
proof -
  have a: "tool_name (Solscan_token_holders ''mint'' Omitted Omitted) \<in> set solscan_tools"
    by (simp add: solscan_tools_def)
  show ?thesis
    using a solscan_request_headers [OF a,
        of "mock_transport \<lparr>status_code = 200, content = Decoded JNull\<rparr>"
           "world0\<lparr>environ := [''SOLSCAN_API_KEY'' \<mapsto> ''secret'']\<rparr>"]
    by simp
qed

text \<open>
  Claim C5. The request of a Jupiter or DexScreener tool does not depend on
  \<open>SOLSCAN_API_KEY\<close>: setting, changing or unsetting the variable (indeed replacing the
  whole environment) leaves the request the same, and the request carries no header.
\<close>

theorem other_tools_ignore_api_key:
  assumes "tool_name c \<in> set jupiter_dexscreener_tools"
  shows "issued up c (w\<lparr>environ := (environ w)(''SOLSCAN_API_KEY'' := v)\<rparr>) = issued up c w
    \<and> issued up c (w\<lparr>environ := e\<rparr>) = issued up c w
    \<and> map headers (issued up c w) = [[]]"
  using assms
  by (cases c)
     (simp_all add: jupiter_dexscreener_tools_def issued_def tool_defs block_world Let_def)

theorem other_tools_ignore_api_key_witness:
  "tool_name (Dexscreener_search ''bonk'') \<in> set jupiter_dexscreener_tools
   \<and> issued (mock_transport \<lparr>status_code = 200, content = Decoded JNull\<rparr>) (Dexscreener_search ''bonk'')
        (world0\<lparr>environ := (environ world0)(''SOLSCAN_API_KEY'' := Some ''secret'')\<rparr>)
     = issued (mock_transport \<lparr>status_code = 200, content = Decoded JNull\<rparr>)
         (Dexscreener_search ''bonk'') world0
   \<and> map headers (issued (mock_transport \<lparr>status_code = 200, content = Decoded JNull\<rparr>)
        (Dexscreener_search ''bonk'') world0) = [[]]"
proof -
  have a: "tool_name (Dexscreener_search ''bonk'') \<in> set jupiter_dexscreener_tools"
    by (simp add: jupiter_dexscreener_tools_def)
  show ?thesis
    using a other_tools_ignore_api_key [OF a,
        of "mock_transport \<lparr>status_code = 200, content = Decoded JNull\<rparr>" world0 "Some ''secret''"]
    by simp
qed

text \<open>
  Claim C10. A Solscan tool reads \<open>SOLSCAN_API_KEY\<close> when it is called: after any
  earlier call, if the variable is then set to \<open>v\<close> (or unset), the headers of the
  next Solscan call are those for \<open>v\<close>, whatever the variable was before.
\<close>

theorem api_key_read_at_each_call:
  assumes "tool_name c \<in> set solscan_tools"
  shows "map headers
           (issued up c
              ((snd (call_tool up a w))
                 \<lparr>environ := (environ (snd (call_tool up a w)))(''SOLSCAN_API_KEY'' := v)\<rparr>))
         = [case v of
              None \<Rightarrow> [(''accept'', ''application/json'')]
            | Some k \<Rightarrow>
                if k = '''' then [(''accept'', ''application/json'')]
                else [(''accept'', ''application/json''), (''token'', k)]]"
  using assms
  by (cases c)
     (simp_all add: solscan_tools_def issued_def tool_defs block_world Let_def getenv_def
        split: option.splits)

theorem api_key_read_at_each_call_witness:
  "tool_name (Solscan_token_info ''mint'') \<in> set solscan_tools
   \<and> map headers
       (issued (mock_transport \<lparr>status_code = 200, content = Decoded JNull\<rparr>)
          (Solscan_account_info ''abc'')
          (world0\<lparr>environ := [''SOLSCAN_API_KEY'' \<mapsto> ''old'']\<rparr>))
     = [[(''accept'', ''application/json''), (''token'', ''old'')]]
   \<and> map headers
       (issued (mock_transport \<lparr>status_code = 200, content = Decoded JNull\<rparr>)
          (Solscan_token_info ''mint'')
          ((snd (call_tool (mock_transport \<lparr>status_code = 200, content = Decoded JNull\<rparr>)
                   (Solscan_account_info ''abc'')
                   (world0\<lparr>environ := [''SOLSCAN_API_KEY'' \<mapsto> ''old'']\<rparr>)))
             \<lparr>environ :=
                (environ (snd (call_tool (mock_transport \<lparr>status_code = 200, content = Decoded JNull\<rparr>)
                   (Solscan_account_info ''abc'')
                   (world0\<lparr>environ := [''SOLSCAN_API_KEY'' \<mapsto> ''old'']\<rparr>))))
                (''SOLSCAN_API_KEY'' := Some ''new'')\<rparr>))
     = [[(''accept'', ''application/json''), (''token'', ''new'')]]"
proof -
  let ?up = "mock_transport \<lparr>status_code = 200, content = Decoded JNull\<rparr>"
  let ?w = "world0\<lparr>environ := [''SOLSCAN_API_KEY'' \<mapsto> ''old'']\<rparr>"
  have a: "tool_name (Solscan_token_info ''mint'') \<in> set solscan_tools"
    by (simp add: solscan_tools_def)
  have b: "map headers (issued ?up (Solscan_account_info ''abc'') ?w)
     = [[(''accept'', ''application/json''), (''token'', ''old'')]]"
    by (simp add: issued_def solscan_account_info_def block_world getenv_def Let_def world0_def)
  show ?thesis
    using a b api_key_read_at_each_call [OF a, of ?up "Solscan_account_info ''abc''" ?w "Some ''new''"]
    by simp
qed

section \<open>URLs and query parameters\<close>

lemma join_concat:
  "join sep xs = (case xs of [] \<Rightarrow> [] | x # ys \<Rightarrow> x @ concat (map (\<lambda>y. sep @ y) ys))"
  by (induction sep xs rule: join.induct) simp_all

text \<open>
  Claim C6. The price tool sends one request whose URL is
  \<open>https://price.jup.ag/v4/price?ids=\<close>, then the ids joined by commas (the first id,
  then a comma and an id for each further one), then \<open>&vsToken=\<close> and the vsToken,
  which is \<open>USDC\<close> when the caller leaves it out; an empty list of ids gives an empty
  \<open>ids\<close> value.
\<close>

theorem jupiter_price_url:
  "issued up (Jupiter_price ids v) w =
     [\<lparr>url = ''https://price.jup.ag/v4/price?ids='' @ join '','' ids @ ''&vsToken=''
              @ (case v of Omitted \<Rightarrow> ''USDC'' | Given t \<Rightarrow> t),
       headers = [], params = []\<rparr>]
   \<and> join '','' ids = (case ids of [] \<Rightarrow> '''' | x # ys \<Rightarrow> x @ concat (map (\<lambda>y. '','' @ y) ys))
   \<and> issued up (Jupiter_price [] Omitted) w =
     [\<lparr>url = ''https://price.jup.ag/v4/price?ids=&vsToken=USDC'', headers = [], params = []\<rparr>]"
proof -
  have "issued up (Jupiter_price ids v) w =
     [\<lparr>url = ''https://price.jup.ag/v4/price?ids='' @ join '','' ids @ ''&vsToken=''
              @ (case v of Omitted \<Rightarrow> ''USDC'' | Given t \<Rightarrow> t),
       headers = [], params = []\<rparr>]"
    by (cases v) (simp_all add: issued_def jupiter_price_def block_world)
  moreover have "issued up (Jupiter_price [] Omitted) w =
     [\<lparr>url = ''https://price.jup.ag/v4/price?ids=&vsToken=USDC'', headers = [], params = []\<rparr>]"
    by (simp add: issued_def jupiter_price_def block_world)
  ultimately show ?thesis
    using join_concat [of "'',''" ids] by simp
qed

text \<open>
  Claim C7. The quote tool sends one request to \<open>https://quote-api.jup.ag/v6/quote\<close>
  whose query parameters are the seven fields of the request model, each with the value
  the model holds, \<open>platformFeeBps\<close> included when it is \<open>None\<close>; a model built without
  the optional arguments carries slippageBps 50, platformFeeBps None, onlyDirectRoutes
  False and asLegacyTransaction False.
\<close>

theorem jupiter_quote_params:
  "issued up (Jupiter_quote q) w =
     [\<lparr>url = ''https://quote-api.jup.ag/v6/quote'', headers = [],
       params =
         [(''inputMint'', PyStr (inputMint q)),
          (''outputMint'', PyStr (outputMint q)),
          (''amount'', PyStr (amount q)),
          (''slippageBps'', PyInt (slippageBps q)),
          (''platformFeeBps'', case platformFeeBps q of None \<Rightarrow> PyNone | Some n \<Rightarrow> PyInt n),
          (''onlyDirectRoutes'', case onlyDirectRoutes q of None \<Rightarrow> PyNone | Some b \<Rightarrow> PyBool b),
          (''asLegacyTransaction'',
             case asLegacyTransaction q of None \<Rightarrow> PyNone | Some b \<Rightarrow> PyBool b)]\<rparr>]
   \<and> issued up (Jupiter_quote (JupiterQuoteRequest_init im om am Omitted Omitted Omitted Omitted)) w =
     [\<lparr>url = ''https://quote-api.jup.ag/v6/quote'', headers = [],
       params =
         [(''inputMint'', PyStr im),
          (''outputMint'', PyStr om),
          (''amount'', PyStr am),
          (''slippageBps'', PyInt 50),
          (''platformFeeBps'', PyNone),
          (''onlyDirectRoutes'', PyBool False),
          (''asLegacyTransaction'', PyBool False)]\<rparr>]"
  by (simp add: issued_def jupiter_quote_def block_world model_dump_def
      JupiterQuoteRequest_init_def split: option.splits)

section \<open>Independence of calls\<close>

text \<open>
  Claim C8. A call changes nothing that another call can observe: the environment and
  the number of open clients are as before, and only the log of requests has grown. So
  the request a call \<open>b\<close> sends after a call \<open>a\<close> is the request it sends without
  \<open>a\<close>, and its result is the upstream's answer to that request: the same result as
  without \<open>a\<close> whenever the upstream answers a request the same way at any time.
\<close>

theorem calls_are_independent:
  "environ (snd (call_tool up a w)) = environ w
   \<and> open_clients (snd (call_tool up a w)) = open_clients w
   \<and> sent (snd (call_tool up a w)) = sent w @ issued up a w
   \<and> issued up b (snd (call_tool up a w)) = issued up b w
   \<and> fst (call_tool up b (snd (call_tool up a w))) = fst (call_tool (\<lambda>n. up (Suc n)) b w)
   \<and> fst (call_tool (\<lambda>n. f) b (snd (call_tool (\<lambda>n. f) a w))) = fst (call_tool (\<lambda>n. f) b w)"
proof -
  have r: "fst (call_tool u b (snd (call_tool u a w))) = fst (call_tool (\<lambda>n. u (Suc n)) b w)" for u
    by (simp add: call_result [where up' = u] call_sent issued_after_call issued_length)
  have "fst (call_tool (\<lambda>n. f) b (snd (call_tool (\<lambda>n. f) a w))) = fst (call_tool (\<lambda>n. f) b w)"
    using r [of "\<lambda>n. f"] by simp
  then show ?thesis
    using r [of up] by (simp add: call_environ call_open_clients call_sent issued_after_call)
qed

section \<open>No validation of responses\<close>

text \<open>
  Claim C9. No tool validates the response: when the upstream answers the request of the
  call with a 2xx response whose body decodes to a value \<open>j\<close> that does not have the
  shape of a declared model \<open>m\<close>, the tool has sent exactly one request and still
  returns \<open>j\<close> unchanged; it raises nothing and leaves the process as any other call
  does.
\<close>

theorem no_response_validation:
  assumes "up (length (sent w)) (hd (issued up c w)) = Inr r"
    and "is_success r"
    and "content r = Decoded j"
    and "m \<in> set response_models"
    and "\<not> matches m j"
  shows "length (issued up c w) = 1
    \<and> call_tool up c w = (Inr j, w\<lparr>sent := sent w @ issued up c w\<rparr>)"
proof -
  have "fst (call_tool up c w) = Inr j"
    using assms(1,2,3) by (simp add: call_result [where up' = up] response_json_def)
  moreover have "snd (call_tool up c w) = w\<lparr>sent := sent w @ issued up c w\<rparr>"
    by (simp add: call_world [where up' = up])
  ultimately show ?thesis
    by (simp add: prod_eq_iff issued_length)
qed

theorem no_response_validation_witness:
  "is_success \<lparr>status_code = 200, content = Decoded (JObj [(''lamports'', JStr ''x'')])\<rparr>
   \<and> SolscanAccountInfo \<in> set response_models
   \<and> \<not> matches SolscanAccountInfo (JObj [(''lamports'', JStr ''x'')])
   \<and> call_tool
        (mock_transport
           \<lparr>status_code = 200, content = Decoded (JObj [(''lamports'', JStr ''x'')])\<rparr>)
        (Solscan_account_info ''abc'') world0
     = (Inr (JObj [(''lamports'', JStr ''x'')]),
        world0\<lparr>sent := [\<lparr>url = ''https://public-api.solscan.io/account/abc'',
                         headers = [(''accept'', ''application/json'')], params = []\<rparr>]\<rparr>)"
proof -
  let ?j = "JObj [(''lamports'', JStr ''x'')]"
  let ?r = "\<lparr>status_code = 200, content = Decoded ?j\<rparr>"
  let ?q = "\<lparr>url = ''https://public-api.solscan.io/account/abc'',
         headers = [(''accept'', ''application/json'')], params = []\<rparr>"
  have a: "issued (mock_transport ?r) (Solscan_account_info ''abc'') world0 = [?q]"
    by (simp add: issued_def solscan_account_info_def block_world getenv_def world0_def)
  have b: "mock_transport ?r (length (sent world0))
             (hd (issued (mock_transport ?r) (Solscan_account_info ''abc'') world0)) = Inr ?r"
    by (simp add: mock_transport_def)
  have c: "is_success ?r"
    by (simp add: is_success_def)
  have d: "content ?r = Decoded ?j"
    by simp
  have e: "SolscanAccountInfo \<in> set response_models"
    by (simp add: response_models_def)
  have f: "\<not> matches SolscanAccountInfo ?j"
    by (simp add: SolscanAccountInfo_def)
  have g: "sent world0 = []"
    by (simp add: world0_def)
  show ?thesis
    using a c e f g
      no_response_validation
        [where up = "mock_transport ?r" and w = world0 and c = "Solscan_account_info ''abc''",
         OF b c d e f]
    by simp
qed

end
